theory Spec2Isabelle
  imports Main
begin

section \<open>The process environment\<close>

text \<open>
  \<^verbatim>\<open>os.environ\<close> is a dictionary from variable names to values. The script
  stores into it with \<^verbatim>\<open>os.environ['CC'] = 'clang'\<close> and with
  \<^verbatim>\<open>os.environ.setdefault('DESTDIR', '/')\<close>, and tests a key with \<^verbatim>\<open>in\<close>.
\<close>

type_synonym environ = "string \<rightharpoonup> string"

definition setitem :: "environ \<Rightarrow> string \<Rightarrow> string \<Rightarrow> environ" where
  "setitem env k v = env(k \<mapsto> v)"

definition setdefault :: "environ \<Rightarrow> string \<Rightarrow> string \<Rightarrow> environ" where
  "setdefault env k v = (case env k of None \<Rightarrow> env(k \<mapsto> v) | Some old \<Rightarrow> env)"

section \<open>Expansion of variable references\<close>

text \<open>
  \<^verbatim>\<open>os.path.expandvars\<close> (the POSIX implementation of the standard library):
  \<^verbatim>\<open>
  def expandvars(path):
      if '$' not in path:
          return path
      _varprog = re.compile(r'\$(\w+|\{[^}]*\})', re.ASCII)
      i = 0
      while True:
          m = _varprog.search(path, i)
          if not m:
              break
          i, j = m.span(0)
          name = m.group(1)
          if name.startswith('{') and name.endswith('}'):
              name = name[1:-1]
          try:
              value = os.environ[name]
          except KeyError:
              i = j
          else:
              tail = path[j:]
              path = path[:i] + value
              i = len(path)
              path += tail
      return path
  \<close>
  The regular expression is modelled by \<open>group_len\<close> (the length of group 1 when the
  text right after a dollar sign matches) and \<open>search\<close> (the leftmost match).
\<close>

definition is_word_char :: "char \<Rightarrow> bool" where
  "is_word_char c \<longleftrightarrow>
     c \<in> set ''abcdefghijklmnopqrstuvwxyzABCDEFGHIJKLMNOPQRSTUVWXYZ0123456789_''"

fun find_close :: "string \<Rightarrow> nat option" where
  "find_close [] = None"
| "find_close (c # cs) =
     (if c = CHR ''}'' then Some 0 else map_option Suc (find_close cs))"

fun group_len :: "string \<Rightarrow> nat option" where
  "group_len [] = None"
| "group_len (c # cs) =
     (if is_word_char c then Some (Suc (length (takeWhile is_word_char cs)))
      else if c = CHR ''{'' then map_option (\<lambda>n. Suc (Suc n)) (find_close cs)
      else None)"

fun search :: "string \<Rightarrow> (nat \<times> nat) option" where
  "search [] = None"
| "search (c # cs) =
     (case (if c = CHR ''$'' then group_len cs else None) of
        Some n \<Rightarrow> Some (0, Suc n)
      | None \<Rightarrow> map_option (\<lambda>(a, b). (Suc a, Suc b)) (search cs))"

definition varprog_search :: "string \<Rightarrow> nat \<Rightarrow> (nat \<times> nat) option" where
  "varprog_search path i =
     map_option (\<lambda>(a, b). (i + a, i + b)) (search (drop i path))"

definition strip_braces :: "string \<Rightarrow> string" where
  "strip_braces name =
     (if name \<noteq> [] \<and> hd name = CHR ''{'' \<and> last name = CHR ''}''
      then butlast (tl name) else name)"

lemma find_close_bound: "find_close cs = Some n \<Longrightarrow> n < length cs"
  by (induction cs arbitrary: n) (auto split: if_splits)

lemma group_len_bound: "group_len cs = Some n \<Longrightarrow> 0 < n \<and> n \<le> length cs"
proof (cases cs)
  case Nil
  assume "group_len cs = Some n"
  with Nil show ?thesis by simp
next
  case (Cons c ds)
  assume g: "group_len cs = Some n"
  have "length (takeWhile is_word_char ds) \<le> length ds"
    by (rule length_takeWhile_le)
  with g Cons show ?thesis
    by (auto split: if_splits dest: find_close_bound)
qed

lemma search_bound: "search cs = Some (a, b) \<Longrightarrow> a < b \<and> b \<le> length cs"
proof (induction cs arbitrary: a b)
  case Nil
  then show ?case by simp
next
  case (Cons c cs)
  then show ?case
    by (auto split: if_splits option.splits dest: group_len_bound)
qed

lemma varprog_search_bound:
  "varprog_search path i = Some (a, b) \<Longrightarrow> i \<le> a \<and> a < b \<and> b \<le> length path"
  by (auto simp: varprog_search_def dest!: search_bound)

function expandvars_loop :: "environ \<Rightarrow> string \<Rightarrow> nat \<Rightarrow> string" where
  "expandvars_loop env path i =
     (case varprog_search path i of
        None \<Rightarrow> path
      | Some (i', j) \<Rightarrow>
          (let name = strip_braces (take (j - Suc i') (drop (Suc i') path)) in
           case env name of
             None \<Rightarrow> expandvars_loop env path j
           | Some v \<Rightarrow>
               (let tail = drop j path; path' = take i' path @ v
                in expandvars_loop env (path' @ tail) (length path'))))"
  by pat_completeness auto
termination
proof (relation "measure (\<lambda>(env, path, i). length path - i)")
  show "wf (measure (\<lambda>(env, path, i). length path - i))" by simp
next
  fix env :: environ and path :: string and i :: nat and x2 x y name
  assume "varprog_search path i = Some x2" and "(x, y) = x2"
  then have "i \<le> x \<and> x < y \<and> y \<le> length path"
    using varprog_search_bound [of path i x y] by simp
  then have "length path - y < length path - i" by arith
  then show "((env, path, y), (env, path, i)) \<in> measure (\<lambda>(env, path, i). length path - i)"
    by simp
next
  fix env :: environ and path :: string and i :: nat and x2 x y name x2a xa xb
  assume "varprog_search path i = Some x2" and "(x, y) = x2"
    and "xa = drop y path" and "xb = take x path @ x2a"
  then have bnd: "i \<le> x \<and> x < y \<and> y \<le> length path"
    and xa: "xa = drop y path" and xb: "xb = take x path @ x2a"
    using varprog_search_bound [of path i x y] by simp_all
  from bnd have "length (take x path) = x" by simp
  with xa xb have "length (xb @ xa) - length xb = length path - y" by simp
  moreover from bnd have "length path - y < length path - i" by arith
  ultimately show "((env, xb @ xa, length xb), (env, path, i)) \<in> measure (\<lambda>(env, path, i). length path - i)"
    by simp
qed

declare expandvars_loop.simps [simp del]

definition expandvars :: "environ \<Rightarrow> string \<Rightarrow> string" where
  "expandvars env path =
     (if CHR ''$'' \<notin> set path then path else expandvars_loop env path 0)"

section \<open>The packaging script\<close>

text \<open>
  The arguments of \<^verbatim>\<open>Extension(...)\<close> and of \<^verbatim>\<open>setup(...)\<close> as records; the
  dictionaries \<^verbatim>\<open>package_data\<close> and \<^verbatim>\<open>cmdclass\<close> as association lists.
\<close>

datatype command_class = build_ext

record Extension =
  ext_name :: string
  sources :: "string list"
  extra_compile_args :: "string list"
  extra_link_args :: "string list"

record setup_args =
  name :: string
  version :: string
  packages :: "string list"
  package_data :: "(string \<times> string list) list"
  cmdclass :: "(string \<times> command_class) list"
  ext_modules :: "Extension list"

text \<open>
  Lines 36 and 37, the configuration of the environment:
  \<^verbatim>\<open>
  os.environ['CC'] = 'clang'
  os.environ.setdefault('DESTDIR', '/')
  \<close>
\<close>

definition configure_environ :: "environ \<Rightarrow> environ" where
  "configure_environ env = setdefault (setitem env ''CC'' ''clang'') ''DESTDIR'' ''/''"

text \<open>
  Lines 38 to 51, the flag lists, over the environment as it is at line 42:
  \<^verbatim>\<open>
  cflags = ['-fblocks', '-Wno-sometimes-uninitialized']
  ldflags = ['-g', '-lpersist', '-lrpc']
  if 'CMAKE_SOURCE_DIR' in os.environ:
      cflags += [
          os.path.expandvars('-I${CMAKE_SOURCE_DIR}/include'),
          os.path.expandvars('-I../../include/')
      ]
      ldflags += [
          os.path.expandvars('-L../..'),
          os.path.expandvars('-Wl,-rpath'),
          os.path.expandvars('-Wl,${CMAKE_PREFIX}/lib')
      ]
  \<close>
\<close>

definition cflags_of :: "environ \<Rightarrow> string list" where
  "cflags_of env =
     [''-fblocks'', ''-Wno-sometimes-uninitialized''] @
     (if ''CMAKE_SOURCE_DIR'' \<in> dom env
      then [expandvars env ''-I${CMAKE_SOURCE_DIR}/include'',
            expandvars env ''-I../../include/'']
      else [])"

definition ldflags_of :: "environ \<Rightarrow> string list" where
  "ldflags_of env =
     [''-g'', ''-lpersist'', ''-lrpc''] @
     (if ''CMAKE_SOURCE_DIR'' \<in> dom env
      then [expandvars env ''-L../..'',
            expandvars env ''-Wl,-rpath'',
            expandvars env ''-Wl,${CMAKE_PREFIX}/lib'']
      else [])"

text \<open>
  The whole script, from the environment it is started in: the setting of the Cython
  option \<^verbatim>\<open>annotate\<close>, the environment after lines 36 and 37, and the arguments
  of the call of \<^verbatim>\<open>setup\<close>.
\<close>

record script_result =
  annotate :: bool
  os_environ :: environ
  setup_call :: setup_args

definition script :: "environ \<Rightarrow> script_result" where
  "script env0 =
     (let env = configure_environ env0;
          cflags = cflags_of env;
          ldflags = ldflags_of env
      in \<lparr>annotate = True,
          os_environ = env,
          setup_call =
            \<lparr>name = ''persist'',
             version = ''1.0'',
             packages = [[]],
             package_data = [([], [''*.html'', ''*.c'', ''persist.pxd''])],
             cmdclass = [(''build_ext'', build_ext)],
             ext_modules =
               [\<lparr>ext_name = ''persist'',
                 sources = [''persist.pyx''],
                 extra_compile_args = cflags,
                 extra_link_args = ldflags\<rparr>]\<rparr>\<rparr>)"

text \<open>
  What the call of \<^verbatim>\<open>setup\<close> hands to its extension modules: for each declared
  extension, the list given as \<^verbatim>\<open>extra_compile_args\<close> and the list given as
  \<^verbatim>\<open>extra_link_args\<close>.
\<close>

definition extension_cflags :: "environ \<Rightarrow> string list list" where
  "extension_cflags env0 = map extra_compile_args (ext_modules (setup_call (script env0)))"

definition extension_ldflags :: "environ \<Rightarrow> string list list" where
  "extension_ldflags env0 = map extra_link_args (ext_modules (setup_call (script env0)))"

section \<open>Facts about the expansion\<close>

lemma expandvars_no_dollar: "CHR ''$'' \<notin> set path \<Longrightarrow> expandvars env path = path"
  by (simp add: expandvars_def)

lemma search_source_dir:
  "varprog_search ''-I${CMAKE_SOURCE_DIR}/include'' 0 = Some (2, 21)"
  by (simp add: varprog_search_def is_word_char_def)

lemma search_prefix:
  "varprog_search ''-Wl,${CMAKE_PREFIX}/lib'' 0 = Some (4, 19)"
  by (simp add: varprog_search_def is_word_char_def)

lemma expandvars_source_dir:
  assumes "env ''CMAKE_SOURCE_DIR'' = Some v"
  shows "expandvars env ''-I${CMAKE_SOURCE_DIR}/include'' = ''-I'' @ v @ ''/include''"
proof -
  have "expandvars env ''-I${CMAKE_SOURCE_DIR}/include''
        = expandvars_loop env ''-I${CMAKE_SOURCE_DIR}/include'' 0"
    by (simp add: expandvars_def)
  also have "\<dots> = expandvars_loop env (''-I'' @ v @ ''/include'') (length (''-I'' @ v))"
    using assms
    by (subst expandvars_loop.simps) (simp add: search_source_dir strip_braces_def)
  also have "\<dots> = ''-I'' @ v @ ''/include''"
    by (subst expandvars_loop.simps) (simp add: varprog_search_def is_word_char_def)
  finally show ?thesis .
qed

lemma expandvars_prefix_set:
  assumes "env ''CMAKE_PREFIX'' = Some p"
  shows "expandvars env ''-Wl,${CMAKE_PREFIX}/lib'' = ''-Wl,'' @ p @ ''/lib''"
proof -
  have "expandvars env ''-Wl,${CMAKE_PREFIX}/lib''
        = expandvars_loop env ''-Wl,${CMAKE_PREFIX}/lib'' 0"
    by (simp add: expandvars_def)
  also have "\<dots> = expandvars_loop env (''-Wl,'' @ p @ ''/lib'') (length (''-Wl,'' @ p))"
    using assms
    by (subst expandvars_loop.simps) (simp add: search_prefix strip_braces_def)
  also have "\<dots> = ''-Wl,'' @ p @ ''/lib''"
    by (subst expandvars_loop.simps) (simp add: varprog_search_def is_word_char_def)
  finally show ?thesis .
qed

lemma expandvars_prefix_unset:
  assumes "env ''CMAKE_PREFIX'' = None"
  shows "expandvars env ''-Wl,${CMAKE_PREFIX}/lib'' = ''-Wl,${CMAKE_PREFIX}/lib''"
proof -
  have "expandvars env ''-Wl,${CMAKE_PREFIX}/lib''
        = expandvars_loop env ''-Wl,${CMAKE_PREFIX}/lib'' 0"
    by (simp add: expandvars_def)
  also have "\<dots> = expandvars_loop env ''-Wl,${CMAKE_PREFIX}/lib'' 19"
    using assms
    by (subst expandvars_loop.simps) (simp add: search_prefix strip_braces_def)
  also have "\<dots> = ''-Wl,${CMAKE_PREFIX}/lib''"
    by (subst expandvars_loop.simps) (simp add: varprog_search_def is_word_char_def)
  finally show ?thesis .
qed

section \<open>Facts about the configured environment\<close>

lemma configure_environ_apply:
  "configure_environ env k =
     (if k = ''CC'' then Some ''clang''
      else if k = ''DESTDIR'' then Some (case env k of None \<Rightarrow> ''/'' | Some d \<Rightarrow> d)
      else env k)"
  by (simp add: configure_environ_def setdefault_def setitem_def split: option.split)

lemma os_environ_script: "os_environ (script env0) = configure_environ env0"
  by (simp add: script_def Let_def)

lemma configure_source_dir [simp]:
  "configure_environ env ''CMAKE_SOURCE_DIR'' = env ''CMAKE_SOURCE_DIR''"
  by (simp add: configure_environ_apply)

lemma configure_prefix [simp]:
  "configure_environ env ''CMAKE_PREFIX'' = env ''CMAKE_PREFIX''"
  by (simp add: configure_environ_apply)

section \<open>Facts about the flag lists\<close>

lemma cflags_script: "extension_cflags env0 = [cflags_of (configure_environ env0)]"
  by (simp add: extension_cflags_def script_def Let_def)

lemma ldflags_script: "extension_ldflags env0 = [ldflags_of (configure_environ env0)]"
  by (simp add: extension_ldflags_def script_def Let_def)

lemma cflags_unset:
  "env0 ''CMAKE_SOURCE_DIR'' = None \<Longrightarrow>
   extension_cflags env0 = [[''-fblocks'', ''-Wno-sometimes-uninitialized'']]"
  by (simp add: cflags_script cflags_of_def dom_def)

lemma ldflags_unset:
  "env0 ''CMAKE_SOURCE_DIR'' = None \<Longrightarrow>
   extension_ldflags env0 = [[''-g'', ''-lpersist'', ''-lrpc'']]"
  by (simp add: ldflags_script ldflags_of_def dom_def)

lemma cflags_set:
  "env0 ''CMAKE_SOURCE_DIR'' = Some s \<Longrightarrow>
   extension_cflags env0 =
     [[''-fblocks'', ''-Wno-sometimes-uninitialized'', ''-I'' @ s @ ''/include'',
       ''-I../../include/'']]"
  by (simp add: cflags_script cflags_of_def dom_def expandvars_source_dir
      expandvars_no_dollar)

lemma ldflags_set:
  "env0 ''CMAKE_SOURCE_DIR'' = Some s \<Longrightarrow>
   extension_ldflags env0 =
     [[''-g'', ''-lpersist'', ''-lrpc'', ''-L../..'', ''-Wl,-rpath'',
       (case env0 ''CMAKE_PREFIX'' of
          None \<Rightarrow> ''-Wl,${CMAKE_PREFIX}/lib''
        | Some p \<Rightarrow> ''-Wl,'' @ p @ ''/lib'')]]"
  by (simp add: ldflags_script ldflags_of_def dom_def expandvars_prefix_set
      expandvars_prefix_unset expandvars_no_dollar split: option.split)

section \<open>The claims\<close>

text \<open>
  C1. For every environment in which \<^verbatim>\<open>CMAKE_SOURCE_DIR\<close> is not set, the
  compile-flag list passed to the extension is exactly
  \<^verbatim>\<open>['-fblocks', '-Wno-sometimes-uninitialized']\<close> and the link-flag list is exactly
  \<^verbatim>\<open>['-g', '-lpersist', '-lrpc']\<close>, in that order, whatever the values of
  \<^verbatim>\<open>CMAKE_PREFIX\<close> and \<^verbatim>\<open>DESTDIR\<close> are.
\<close>

theorem C1_base_flags:
  assumes "env0 ''CMAKE_SOURCE_DIR'' = None"
  shows "extension_cflags env0 = [[''-fblocks'', ''-Wno-sometimes-uninitialized'']]
       \<and> extension_ldflags env0 = [[''-g'', ''-lpersist'', ''-lrpc'']]"
  using assms by (simp add: cflags_unset ldflags_unset)

theorem C1_base_flags_witness:
  "[''CMAKE_PREFIX'' \<mapsto> ''/usr/local'', ''DESTDIR'' \<mapsto> ''/stage''] ''CMAKE_SOURCE_DIR'' = None
   \<and> extension_cflags [''CMAKE_PREFIX'' \<mapsto> ''/usr/local'', ''DESTDIR'' \<mapsto> ''/stage'']
       = [[''-fblocks'', ''-Wno-sometimes-uninitialized'']]
   \<and> extension_ldflags [''CMAKE_PREFIX'' \<mapsto> ''/usr/local'', ''DESTDIR'' \<mapsto> ''/stage'']
       = [[''-g'', ''-lpersist'', ''-lrpc'']]"
  using C1_base_flags [of "[''CMAKE_PREFIX'' \<mapsto> ''/usr/local'', ''DESTDIR'' \<mapsto> ''/stage'']"]
  by simp

text \<open>
  C2. For every environment in which \<^verbatim>\<open>CMAKE_SOURCE_DIR\<close> is set, to \<open>s\<close>, the
  compile-flag list is the base list extended with \<^verbatim>\<open>-I\<close>\<open>s\<close>\<^verbatim>\<open>/include\<close> and
  \<^verbatim>\<open>-I../../include/\<close>, and the link-flag list is the base list extended with
  \<^verbatim>\<open>-L../..\<close>, \<^verbatim>\<open>-Wl,-rpath\<close> and the expansion of \<^verbatim>\<open>-Wl,${CMAKE_PREFIX}/lib\<close>,
  in that order (the value of \<^verbatim>\<open>CMAKE_PREFIX\<close> in place of the reference when the
  variable is set, the reference as it stands when it is not). No other flag is added
  in any environment: where \<^verbatim>\<open>CMAKE_SOURCE_DIR\<close> is not set the lists are the base
  lists.
\<close>

theorem C2_extended_flags:
  "extension_cflags env0 =
     [[''-fblocks'', ''-Wno-sometimes-uninitialized''] @
      (case env0 ''CMAKE_SOURCE_DIR'' of
         None \<Rightarrow> []
       | Some s \<Rightarrow> [''-I'' @ s @ ''/include'', ''-I../../include/''])]
   \<and> extension_ldflags env0 =
     [[''-g'', ''-lpersist'', ''-lrpc''] @
      (case env0 ''CMAKE_SOURCE_DIR'' of
         None \<Rightarrow> []
       | Some s \<Rightarrow>
           [''-L../..'', ''-Wl,-rpath'',
            (case env0 ''CMAKE_PREFIX'' of
               None \<Rightarrow> ''-Wl,${CMAKE_PREFIX}/lib''
             | Some p \<Rightarrow> ''-Wl,'' @ p @ ''/lib'')])]"
proof (cases "env0 ''CMAKE_SOURCE_DIR''")
  case None
  then show ?thesis by (simp add: cflags_unset ldflags_unset)
next
  case (Some s)
  then show ?thesis by (simp add: cflags_set ldflags_set)
qed

theorem C2_extended_flags_witness:
  "extension_cflags [''CMAKE_SOURCE_DIR'' \<mapsto> ''/src/libpersist'', ''CMAKE_PREFIX'' \<mapsto> ''/usr/local'']
     = [[''-fblocks'', ''-Wno-sometimes-uninitialized'', ''-I/src/libpersist/include'',
         ''-I../../include/'']]
   \<and> extension_ldflags [''CMAKE_SOURCE_DIR'' \<mapsto> ''/src/libpersist'', ''CMAKE_PREFIX'' \<mapsto> ''/usr/local'']
     = [[''-g'', ''-lpersist'', ''-lrpc'', ''-L../..'', ''-Wl,-rpath'', ''-Wl,/usr/local/lib'']]"
  using C2_extended_flags
    [of "[''CMAKE_SOURCE_DIR'' \<mapsto> ''/src/libpersist'', ''CMAKE_PREFIX'' \<mapsto> ''/usr/local'']"]
  by simp

text \<open>
  C3. In every environment, the call of \<^verbatim>\<open>setup\<close> declares exactly one extension
  module, its name is \<^verbatim>\<open>persist\<close>, and its source list holds exactly one file, the
  interface file \<^verbatim>\<open>persist.pyx\<close>.
\<close>

theorem C3_one_extension:
  "length (ext_modules (setup_call (script env0))) = 1
   \<and> map ext_name (ext_modules (setup_call (script env0))) = [''persist'']
   \<and> map sources (ext_modules (setup_call (script env0))) = [[''persist.pyx'']]"
  by (simp add: script_def Let_def)

text \<open>
  C4. In every environment, the script sets the environment variable \<^verbatim>\<open>CC\<close> to the
  string \<^verbatim>\<open>clang\<close>, overwriting any value \<^verbatim>\<open>CC\<close> had before the script ran.
\<close>

theorem C4_cc_is_clang: "os_environ (script env0) ''CC'' = Some ''clang''"
  by (simp add: os_environ_script configure_environ_apply)

theorem C4_cc_is_clang_witness:
  "[''CC'' \<mapsto> ''gcc''] ''CC'' = Some ''gcc''
   \<and> os_environ (script [''CC'' \<mapsto> ''gcc'']) ''CC'' = Some ''clang''"
  using C4_cc_is_clang [of "[''CC'' \<mapsto> ''gcc'']"] by simp

text \<open>
  C5. In every environment, whether or not \<^verbatim>\<open>CMAKE_SOURCE_DIR\<close> and
  \<^verbatim>\<open>CMAKE_PREFIX\<close> are set, the link-flag list passed to the extension contains both
  \<^verbatim>\<open>-lpersist\<close> and \<^verbatim>\<open>-lrpc\<close>.
\<close>

theorem C5_links_both_libraries:
  "\<exists>l. extension_ldflags env0 = [l] \<and> ''-lpersist'' \<in> set l \<and> ''-lrpc'' \<in> set l"
proof (cases "env0 ''CMAKE_SOURCE_DIR''")
  case None
  then show ?thesis by (simp add: ldflags_unset)
next
  case (Some s)
  then show ?thesis by (simp add: ldflags_set)
qed

text \<open>
  C6. After the script's environment-setup step, the environment variable
  \<^verbatim>\<open>DESTDIR\<close> is set: if \<^verbatim>\<open>DESTDIR\<close> was unset before the script ran it equals
  \<^verbatim>\<open>/\<close>, and if it was already set it keeps its prior value.
\<close>

theorem C6_destdir_default:
  "os_environ (script env0) ''DESTDIR'' \<noteq> None
   \<and> (env0 ''DESTDIR'' = None \<longrightarrow> os_environ (script env0) ''DESTDIR'' = Some ''/'')
   \<and> (\<forall>d. env0 ''DESTDIR'' = Some d \<longrightarrow> os_environ (script env0) ''DESTDIR'' = Some d)"
  by (simp add: os_environ_script configure_environ_apply)

theorem C6_destdir_default_witness:
  "Map.empty ''DESTDIR'' = (None :: string option)
   \<and> os_environ (script Map.empty) ''DESTDIR'' = Some ''/''
   \<and> [''DESTDIR'' \<mapsto> ''/stage''] ''DESTDIR'' = Some ''/stage''
   \<and> os_environ (script [''DESTDIR'' \<mapsto> ''/stage'']) ''DESTDIR'' = Some ''/stage''"
  using C6_destdir_default [of Map.empty] C6_destdir_default [of "[''DESTDIR'' \<mapsto> ''/stage'']"]
  by simp

text \<open>
  C7. For any two environments that differ only in the value or presence of
  \<^verbatim>\<open>CMAKE_PREFIX\<close>, the computed compile-flag lists are identical, and the computed
  link-flag lists differ at most in the single entry \<^verbatim>\<open>-Wl,<CMAKE_PREFIX>/lib\<close>,
  their last one: they have the same length and the same entries before it. In
  particular, when \<^verbatim>\<open>CMAKE_SOURCE_DIR\<close> is unset, \<^verbatim>\<open>CMAKE_PREFIX\<close> has no effect
  on any flag.
\<close>

theorem C7_prefix_only_last_link_flag:
  assumes "\<forall>k. k \<noteq> ''CMAKE_PREFIX'' \<longrightarrow> env1 k = env2 k"
  shows "extension_cflags env1 = extension_cflags env2
       \<and> map length (extension_ldflags env1) = map length (extension_ldflags env2)
       \<and> map butlast (extension_ldflags env1) = map butlast (extension_ldflags env2)
       \<and> (\<forall>l1 l2 n. extension_ldflags env1 = [l1] \<and> extension_ldflags env2 = [l2]
             \<and> n < length l1 \<and> l1 ! n \<noteq> l2 ! n \<longrightarrow>
             n = 5
             \<and> l1 ! n = (case env1 ''CMAKE_PREFIX'' of
                           None \<Rightarrow> ''-Wl,${CMAKE_PREFIX}/lib''
                         | Some p \<Rightarrow> ''-Wl,'' @ p @ ''/lib'')
             \<and> l2 ! n = (case env2 ''CMAKE_PREFIX'' of
                           None \<Rightarrow> ''-Wl,${CMAKE_PREFIX}/lib''
                         | Some p \<Rightarrow> ''-Wl,'' @ p @ ''/lib''))
       \<and> (env1 ''CMAKE_SOURCE_DIR'' = None \<longrightarrow>
             extension_ldflags env1 = extension_ldflags env2)"
proof -
  from assms have same: "env1 ''CMAKE_SOURCE_DIR'' = env2 ''CMAKE_SOURCE_DIR''"
    by simp
  show ?thesis
  proof (cases "env1 ''CMAKE_SOURCE_DIR''")
    case None
    with same have "env2 ''CMAKE_SOURCE_DIR'' = None" by simp
    with None show ?thesis
      by (simp add: cflags_unset ldflags_unset)
  next
    case (Some s)
    with same have s2: "env2 ''CMAKE_SOURCE_DIR'' = Some s" by simp
    note c1 = cflags_set [of env1 s, OF Some] and c2 = cflags_set [of env2 s, OF s2]
    note d1 = ldflags_set [of env1 s, OF Some] and d2 = ldflags_set [of env2 s, OF s2]
    have c: "extension_cflags env1 = extension_cflags env2"
      by (simp add: c1 c2)
    have len: "map length (extension_ldflags env1) = map length (extension_ldflags env2)"
      by (simp add: d1 d2)
    have bl: "map butlast (extension_ldflags env1) = map butlast (extension_ldflags env2)"
      by (simp add: d1 d2)
    have nth: "n = 5
        \<and> l1 ! n = (case env1 ''CMAKE_PREFIX'' of
                      None \<Rightarrow> ''-Wl,${CMAKE_PREFIX}/lib''
                    | Some p \<Rightarrow> ''-Wl,'' @ p @ ''/lib'')
        \<and> l2 ! n = (case env2 ''CMAKE_PREFIX'' of
                      None \<Rightarrow> ''-Wl,${CMAKE_PREFIX}/lib''
                    | Some p \<Rightarrow> ''-Wl,'' @ p @ ''/lib'')"
      if h: "extension_ldflags env1 = [l1]" "extension_ldflags env2 = [l2]"
        "n < length l1" "l1 ! n \<noteq> l2 ! n" for l1 l2 n
    proof -
      from h(1) have l1: "l1 = [''-g'', ''-lpersist'', ''-lrpc'', ''-L../..'', ''-Wl,-rpath'',
          (case env1 ''CMAKE_PREFIX'' of
             None \<Rightarrow> ''-Wl,${CMAKE_PREFIX}/lib''
           | Some p \<Rightarrow> ''-Wl,'' @ p @ ''/lib'')]"
        by (simp add: d1)
      from h(2) have l2: "l2 = [''-g'', ''-lpersist'', ''-lrpc'', ''-L../..'', ''-Wl,-rpath'',
          (case env2 ''CMAKE_PREFIX'' of
             None \<Rightarrow> ''-Wl,${CMAKE_PREFIX}/lib''
           | Some p \<Rightarrow> ''-Wl,'' @ p @ ''/lib'')]"
        by (simp add: d2)
      from h(3) l1 have "n < 6" by simp
      then consider "n = 0" | "n = 1" | "n = 2" | "n = 3" | "n = 4" | "n = 5"
        by arith
      then have n5: "n = 5"
      proof cases
        case 6
        then show ?thesis .
      qed (use h(4) l1 l2 in simp_all)
      show ?thesis
        unfolding n5 l1 l2 by simp
    qed
    have last_only: "\<forall>l1 l2 n. extension_ldflags env1 = [l1] \<and> extension_ldflags env2 = [l2]
             \<and> n < length l1 \<and> l1 ! n \<noteq> l2 ! n \<longrightarrow>
             n = 5
             \<and> l1 ! n = (case env1 ''CMAKE_PREFIX'' of
                           None \<Rightarrow> ''-Wl,${CMAKE_PREFIX}/lib''
                         | Some p \<Rightarrow> ''-Wl,'' @ p @ ''/lib'')
             \<and> l2 ! n = (case env2 ''CMAKE_PREFIX'' of
                           None \<Rightarrow> ''-Wl,${CMAKE_PREFIX}/lib''
                         | Some p \<Rightarrow> ''-Wl,'' @ p @ ''/lib'')"
      by (intro allI impI, elim conjE, rule nth, assumption+)
    have unset: "env1 ''CMAKE_SOURCE_DIR'' = None \<longrightarrow>
        extension_ldflags env1 = extension_ldflags env2"
      using Some by simp
    from c len bl last_only unset show ?thesis
      by (intro conjI)
  qed
qed

theorem C7_prefix_only_last_link_flag_witness:
  "extension_cflags [''CMAKE_SOURCE_DIR'' \<mapsto> ''/src'', ''CMAKE_PREFIX'' \<mapsto> ''/opt'']
     = extension_cflags [''CMAKE_SOURCE_DIR'' \<mapsto> ''/src'']
   \<and> map length (extension_ldflags [''CMAKE_SOURCE_DIR'' \<mapsto> ''/src'', ''CMAKE_PREFIX'' \<mapsto> ''/opt''])
       = map length (extension_ldflags [''CMAKE_SOURCE_DIR'' \<mapsto> ''/src''])
   \<and> map butlast (extension_ldflags [''CMAKE_SOURCE_DIR'' \<mapsto> ''/src'', ''CMAKE_PREFIX'' \<mapsto> ''/opt''])
       = map butlast (extension_ldflags [''CMAKE_SOURCE_DIR'' \<mapsto> ''/src''])"
proof -
  have h: "\<forall>k. k \<noteq> ''CMAKE_PREFIX'' \<longrightarrow>
        [''CMAKE_SOURCE_DIR'' \<mapsto> ''/src'', ''CMAKE_PREFIX'' \<mapsto> ''/opt''] k
        = [''CMAKE_SOURCE_DIR'' \<mapsto> ''/src''] k"
    by simp
  from C7_prefix_only_last_link_flag [OF h] show ?thesis
    by blast
qed

text \<open>
  C8. If \<^verbatim>\<open>CMAKE_SOURCE_DIR\<close> is set but \<^verbatim>\<open>CMAKE_PREFIX\<close> is unset, the final
  link flag is the literal, unexpanded string \<^verbatim>\<open>-Wl,${CMAKE_PREFIX}/lib\<close>: the
  variable reference is passed through as it stands; it is neither left out nor
  replaced by an empty string.
\<close>

theorem C8_unset_prefix_stays_literal:
  assumes "env0 ''CMAKE_SOURCE_DIR'' = Some s" and "env0 ''CMAKE_PREFIX'' = None"
  shows "\<exists>l. extension_ldflags env0 = [l] \<and> length l = 6
            \<and> last l = ''-Wl,${CMAKE_PREFIX}/lib''
            \<and> last l \<noteq> ''-Wl,/lib''"
  using assms by (simp add: ldflags_set)

theorem C8_unset_prefix_stays_literal_witness:
  "[''CMAKE_SOURCE_DIR'' \<mapsto> ''/src''] ''CMAKE_SOURCE_DIR'' = Some ''/src''
   \<and> [''CMAKE_SOURCE_DIR'' \<mapsto> ''/src''] ''CMAKE_PREFIX'' = None
   \<and> (\<exists>l. extension_ldflags [''CMAKE_SOURCE_DIR'' \<mapsto> ''/src''] = [l] \<and> length l = 6
            \<and> last l = ''-Wl,${CMAKE_PREFIX}/lib''
            \<and> last l \<noteq> ''-Wl,/lib'')"
  using C8_unset_prefix_stays_literal [of "[''CMAKE_SOURCE_DIR'' \<mapsto> ''/src'']" "''/src''"]
  by simp

text \<open>
  C9. The conditional include and library search paths are added on the presence of the
  key \<^verbatim>\<open>CMAKE_SOURCE_DIR\<close> in the environment alone, not on its value: with the key
  absent the lists have their two and three base flags, with the key present, whatever
  its value, they have two and three flags more, and setting \<^verbatim>\<open>CMAKE_SOURCE_DIR\<close> to
  the empty string still gives all five extra compile and link flags.
\<close>

theorem C9_presence_not_value:
  "(env0 ''CMAKE_SOURCE_DIR'' = None \<longrightarrow>
      map length (extension_cflags env0) = [2] \<and> map length (extension_ldflags env0) = [3])
   \<and> (\<forall>s. env0 ''CMAKE_SOURCE_DIR'' = Some s \<longrightarrow>
      map length (extension_cflags env0) = [4] \<and> map length (extension_ldflags env0) = [6])
   \<and> (env0 ''CMAKE_SOURCE_DIR'' = Some [] \<longrightarrow>
      extension_cflags env0 =
        [[''-fblocks'', ''-Wno-sometimes-uninitialized'', ''-I/include'', ''-I../../include/'']]
      \<and> extension_ldflags env0 =
        [[''-g'', ''-lpersist'', ''-lrpc'', ''-L../..'', ''-Wl,-rpath'',
          (case env0 ''CMAKE_PREFIX'' of
             None \<Rightarrow> ''-Wl,${CMAKE_PREFIX}/lib''
           | Some p \<Rightarrow> ''-Wl,'' @ p @ ''/lib'')]])"
proof (cases "env0 ''CMAKE_SOURCE_DIR''")
  case None
  then show ?thesis by (simp add: cflags_unset ldflags_unset)
next
  case (Some s)
  then show ?thesis by (simp add: cflags_set ldflags_set)
qed

theorem C9_presence_not_value_witness:
  "[''CMAKE_SOURCE_DIR'' \<mapsto> [], ''CMAKE_PREFIX'' \<mapsto> ''/opt''] ''CMAKE_SOURCE_DIR'' = Some []
   \<and> extension_cflags [''CMAKE_SOURCE_DIR'' \<mapsto> [], ''CMAKE_PREFIX'' \<mapsto> ''/opt''] =
        [[''-fblocks'', ''-Wno-sometimes-uninitialized'', ''-I/include'', ''-I../../include/'']]
   \<and> extension_ldflags [''CMAKE_SOURCE_DIR'' \<mapsto> [], ''CMAKE_PREFIX'' \<mapsto> ''/opt''] =
        [[''-g'', ''-lpersist'', ''-lrpc'', ''-L../..'', ''-Wl,-rpath'', ''-Wl,/opt/lib'']]
   \<and> (Map.empty :: environ) ''CMAKE_SOURCE_DIR'' = None
   \<and> map length (extension_cflags Map.empty) = [2]
   \<and> map length (extension_ldflags Map.empty) = [3]"
  using C9_presence_not_value [of "[''CMAKE_SOURCE_DIR'' \<mapsto> [], ''CMAKE_PREFIX'' \<mapsto> ''/opt'']"]
    C9_presence_not_value [of Map.empty]
  by simp

text \<open>
  C10. The script modifies at most the \<^verbatim>\<open>CC\<close> and \<^verbatim>\<open>DESTDIR\<close> entries of the
  process environment: for every other environment variable, \<^verbatim>\<open>CMAKE_SOURCE_DIR\<close>
  and \<^verbatim>\<open>CMAKE_PREFIX\<close> among them, its value after the script's configuration step
  equals its value before.
\<close>

theorem C10_environment_frame:
  "(\<forall>k. k \<noteq> ''CC'' \<and> k \<noteq> ''DESTDIR'' \<longrightarrow> os_environ (script env0) k = env0 k)
   \<and> os_environ (script env0) ''CMAKE_SOURCE_DIR'' = env0 ''CMAKE_SOURCE_DIR''
   \<and> os_environ (script env0) ''CMAKE_PREFIX'' = env0 ''CMAKE_PREFIX''"
  by (simp add: os_environ_script configure_environ_apply)

theorem C10_environment_frame_witness:
  "''HOME'' \<noteq> ''CC'' \<and> ''HOME'' \<noteq> ''DESTDIR''
   \<and> os_environ (script [''HOME'' \<mapsto> ''/root'', ''CC'' \<mapsto> ''gcc'']) ''HOME'' = Some ''/root''
   \<and> os_environ (script [''HOME'' \<mapsto> ''/root'', ''CC'' \<mapsto> ''gcc'']) ''CMAKE_PREFIX'' = None"
  using C10_environment_frame [of "[''HOME'' \<mapsto> ''/root'', ''CC'' \<mapsto> ''gcc'']"]
  by simp

end
